theory Spec2Isabelle
  imports Complex_Main "HOL-Library.AList" "HOL-Library.Log_Nat"
begin

section \<open>JavaScript numbers and strings\<close>

text \<open>
  A JavaScript number is an IEEE 754 double: \<open>NaN\<close>, one of the two infinities, or a
  finite double, which \<open>Num\<close> holds by its exact rational value. The two zeros are
  one value here: \<open>-0\<close> and \<open>0\<close> are both falsy and both written \<open>0\<close> in JSON.
  Strings are lists of 8-bit characters.
\<close>

datatype jsnum = NaN | Num rat | PosInfinity | NegInfinity

text \<open>
  The Number value for a real number: the double nearest to it, a tie going to the
  double with an even significand. The doubles with exponent \<open>e\<close> are the multiples
  of \<open>2 ^ (e - 52)\<close>, and below \<open>2 ^ -1022\<close> the subnormal ones are the multiples
  of \<open>2 ^ -1074\<close>; a number that rounds to \<open>2 ^ 1024\<close> or beyond is infinite.
\<close>

definition pow2 :: "int \<Rightarrow> rat" where
  "pow2 k = (if 0 \<le> k then 2 ^ nat k else 1 / 2 ^ nat (- k))"

text \<open>For \<open>a > 0\<close>, the exponent \<open>e\<close> with \<open>2 ^ e \<le> a < 2 ^ (e + 1)\<close>.\<close>

definition binade :: "rat \<Rightarrow> int" where
  "binade a =
     (let d = bitlen (fst (quotient_of a)) - bitlen (snd (quotient_of a))
      in if pow2 d \<le> a then d else d - 1)"

definition round_half_even :: "rat \<Rightarrow> int" where
  "round_half_even q =
     (let f = \<lfloor>q\<rfloor>; d = q - of_int f
      in if d < 1 / 2 then f else if 1 / 2 < d then f + 1 else if even f then f else f + 1)"

text \<open>For \<open>a \<ge> 0\<close>, the nearest multiple of the spacing of the doubles around \<open>a\<close>.\<close>

definition nearest :: "rat \<Rightarrow> rat" where
  "nearest a =
     (if a = 0 then 0
      else let u = pow2 (max (binade a) (- 1022) - 52)
           in of_int (round_half_even (a / u)) * u)"

definition number :: "rat \<Rightarrow> jsnum" where
  "number x =
     (let r = nearest \<bar>x\<bar>
      in if pow2 1024 \<le> r then (if x < 0 then NegInfinity else PosInfinity)
         else Num (if x < 0 then - r else r))"

text \<open>Truthiness of a number: \<open>NaN\<close> and zero are falsy.\<close>

fun truthy :: "jsnum \<Rightarrow> bool" where
  "truthy NaN = False"
| "truthy (Num r) = (r \<noteq> 0)"
| "truthy PosInfinity = True"
| "truthy NegInfinity = True"

text \<open>The expression \<open>x || 0\<close> on numbers.\<close>

definition or_zero :: "jsnum \<Rightarrow> jsnum" where
  "or_zero x = (if truthy x then x else Num 0)"

definition is_ws :: "char \<Rightarrow> bool" where
  "is_ws c = (c \<in> set [CHR 0x09, CHR 0x0A, CHR 0x0B, CHR 0x0C, CHR 0x0D, CHR 0x20, CHR 0xA0])"

definition is_digit :: "char \<Rightarrow> bool" where
  "is_digit c = (c \<in> set ''0123456789'')"

definition digit_val :: "char \<Rightarrow> nat" where
  "digit_val c = (case map_of (zip ''0123456789'' [0, 1, 2, 3, 4, 5, 6, 7, 8, 9]) c of
                    Some d \<Rightarrow> d | None \<Rightarrow> 0)"

definition digits_val :: "string \<Rightarrow> nat" where
  "digits_val ds = foldl (\<lambda>a c. 10 * a + digit_val c) 0 ds"

text \<open>
  The exponent part of a decimal literal: \<open>e\<close> or \<open>E\<close>, an optional sign and at least
  one digit. Anything else is not part of the literal and counts as exponent 0.
\<close>

definition parse_exponent :: "string \<Rightarrow> int" where
  "parse_exponent r =
     (case r of
        [] \<Rightarrow> 0
      | e # r1 \<Rightarrow>
          if e \<in> set ''eE'' then
            (case r1 of
               [] \<Rightarrow> 0
             | s # r2 \<Rightarrow>
                 if s = CHR ''-'' then - int (digits_val (takeWhile is_digit r2))
                 else if s = CHR ''+'' then int (digits_val (takeWhile is_digit r2))
                 else int (digits_val (takeWhile is_digit r1)))
          else 0)"

text \<open>
  \<open>parseFloat\<close>: skip leading white space, read an optional sign, then \<open>Infinity\<close> or the
  longest prefix that is a decimal literal (digits, optional fraction, optional
  exponent). Without any digit the result is \<open>NaN\<close>; otherwise it is the Number value
  for the decimal read.
\<close>

definition parseFloat :: "string \<Rightarrow> jsnum" where
  "parseFloat s =
     (let t = dropWhile is_ws s;
          neg = (case t of [] \<Rightarrow> False | c # _ \<Rightarrow> c = CHR ''-'');
          u = (case t of [] \<Rightarrow> [] | c # r \<Rightarrow> if c = CHR ''-'' \<or> c = CHR ''+'' then r else t)
      in if take 8 u = ''Infinity'' then (if neg then NegInfinity else PosInfinity)
         else
           let ip = takeWhile is_digit u;
               r1 = dropWhile is_digit u;
               fp = (case r1 of [] \<Rightarrow> [] | c # r \<Rightarrow> if c = CHR ''.'' then takeWhile is_digit r else []);
               r2 = (case r1 of [] \<Rightarrow> [] | c # r \<Rightarrow> if c = CHR ''.'' then dropWhile is_digit r else r1)
           in if ip = [] \<and> fp = [] then NaN
              else
                let m = of_nat (digits_val (ip @ fp)) / 10 ^ length fp;
                    e = parse_exponent r2;
                    v = (if 0 \<le> e then m * 10 ^ nat e else m / 10 ^ nat (- e))
                in number (if neg then - v else v))"

section \<open>The prediction form (PredictionForm)\<close>

record field =
  key :: string
  label :: string
  desc :: string
  min_f :: rat
  max_f :: rat
  step :: rat
  default_f :: rat

record field_group =
  label_g :: string
  color :: string
  fields_g :: "field list"

definition FIELD_GROUPS :: "field_group list" where
  "FIELD_GROUPS = [
    \<lparr> label_g = ''Fundamental Frequency'', color = ''blue'', fields_g = [
      \<lparr> key = ''mdvp_fo'', label = ''MDVP:Fo (Hz)'', desc = ''Average vocal fundamental frequency'', min_f = 80, max_f = 270, step = 0.001, default_f = 154.229 \<rparr>,
      \<lparr> key = ''mdvp_fhi'', label = ''MDVP:Fhi (Hz)'', desc = ''Maximum vocal fundamental frequency'', min_f = 100, max_f = 600, step = 0.001, default_f = 197.105 \<rparr>,
      \<lparr> key = ''mdvp_flo'', label = ''MDVP:Flo (Hz)'', desc = ''Minimum vocal fundamental frequency'', min_f = 60, max_f = 240, step = 0.001, default_f = 116.325 \<rparr> ] \<rparr>,
    \<lparr> label_g = ''Jitter (Frequency Variation)'', color = ''purple'', fields_g = [
      \<lparr> key = ''mdvp_jitter_pct'', label = ''MDVP:Jitter (%)'', desc = ''Cycle-to-cycle variability (%)'', min_f = 0, max_f = 0.1, step = 0.00001, default_f = 0.00662 \<rparr>,
      \<lparr> key = ''mdvp_jitter_abs'', label = ''MDVP:Jitter (Abs)'', desc = ''Absolute jitter'', min_f = 0, max_f = 0.001, step = 0.000001, default_f = 0.000044 \<rparr>,
      \<lparr> key = ''mdvp_rap'', label = ''MDVP:RAP'', desc = ''Relative average perturbation'', min_f = 0, max_f = 0.06, step = 0.00001, default_f = 0.00317 \<rparr>,
      \<lparr> key = ''mdvp_ppq'', label = ''MDVP:PPQ'', desc = ''5-point period perturbation quotient'', min_f = 0, max_f = 0.06, step = 0.00001, default_f = 0.00349 \<rparr>,
      \<lparr> key = ''jitter_ddp'', label = ''Jitter:DDP'', desc = ''Average abs difference of differences'', min_f = 0, max_f = 0.18, step = 0.00001, default_f = 0.00951 \<rparr> ] \<rparr>,
    \<lparr> label_g = ''Shimmer (Amplitude Variation)'', color = ''teal'', fields_g = [
      \<lparr> key = ''mdvp_shimmer'', label = ''MDVP:Shimmer'', desc = ''Amplitude variation'', min_f = 0, max_f = 0.2, step = 0.00001, default_f = 0.02971 \<rparr>,
      \<lparr> key = ''mdvp_shimmer_db'', label = ''MDVP:Shimmer (dB)'', desc = ''Shimmer in decibels'', min_f = 0, max_f = 2, step = 0.001, default_f = 0.282 \<rparr>,
      \<lparr> key = ''shimmer_apq3'', label = ''Shimmer:APQ3'', desc = ''3-point APQ'', min_f = 0, max_f = 0.1, step = 0.00001, default_f = 0.01497 \<rparr>,
      \<lparr> key = ''shimmer_apq5'', label = ''Shimmer:APQ5'', desc = ''5-point APQ'', min_f = 0, max_f = 0.15, step = 0.00001, default_f = 0.01876 \<rparr>,
      \<lparr> key = ''mdvp_apq'', label = ''MDVP:APQ'', desc = ''11-point APQ'', min_f = 0, max_f = 0.15, step = 0.00001, default_f = 0.02438 \<rparr>,
      \<lparr> key = ''shimmer_dda'', label = ''Shimmer:DDA'', desc = ''DDA shimmer'', min_f = 0, max_f = 0.3, step = 0.00001, default_f = 0.04491 \<rparr> ] \<rparr>,
    \<lparr> label_g = ''Noise & Harmonics'', color = ''orange'', fields_g = [
      \<lparr> key = ''nhr'', label = ''NHR'', desc = ''Noise-to-harmonic ratio'', min_f = 0, max_f = 0.5, step = 0.00001, default_f = 0.02455 \<rparr>,
      \<lparr> key = ''hnr'', label = ''HNR'', desc = ''Harmonic-to-noise ratio'', min_f = 0, max_f = 35, step = 0.001, default_f = 21.886 \<rparr> ] \<rparr>,
    \<lparr> label_g = ''Nonlinear Dynamics'', color = ''rose'', fields_g = [
      \<lparr> key = ''rpde'', label = ''RPDE'', desc = ''Recurrence period density entropy'', min_f = 0, max_f = 1, step = 0.000001, default_f = 0.498536 \<rparr>,
      \<lparr> key = ''dfa'', label = ''DFA'', desc = ''Detrended fluctuation analysis'', min_f = 0.5, max_f = 1, step = 0.000001, default_f = 0.718099 \<rparr>,
      \<lparr> key = ''spread1'', label = ''spread1'', desc = ''Nonlinear fundamental freq variation'', min_f = -8, max_f = -1, step = 0.000001, default_f = -5.684397 \<rparr>,
      \<lparr> key = ''spread2'', label = ''spread2'', desc = ''Nonlinear fundamental freq variation'', min_f = 0, max_f = 0.5, step = 0.000001, default_f = 0.226510 \<rparr>,
      \<lparr> key = ''d2'', label = ''D2'', desc = ''Correlation dimension'', min_f = 1, max_f = 4, step = 0.000001, default_f = 2.381826 \<rparr>,
      \<lparr> key = ''ppe'', label = ''PPE'', desc = ''Pitch period entropy (most predictive)'', min_f = 0, max_f = 0.7, step = 0.000001, default_f = 0.371345 \<rparr> ] \<rparr> ]"

text \<open>
  \<open>FormValues\<close> is a JavaScript object with string keys: an association list in
  insertion order, where writing an existing key keeps its position.
\<close>

type_synonym FormValues = "(string \<times> jsnum) list"

text \<open>An object literal of numbers: each numeric literal denotes its Number value.\<close>

definition literals :: "(string \<times> rat) list \<Rightarrow> FormValues" where
  "literals kvs = map (\<lambda>(k, x). (k, number x)) kvs"

definition SAMPLE_HEALTHY :: FormValues where
  "SAMPLE_HEALTHY = literals [
    (''mdvp_fo'', 197.076), (''mdvp_fhi'', 206.896), (''mdvp_flo'', 192.055),
    (''mdvp_jitter_pct'', 0.00289), (''mdvp_jitter_abs'', 0.00001),
    (''mdvp_rap'', 0.00166), (''mdvp_ppq'', 0.00168), (''jitter_ddp'', 0.00498),
    (''mdvp_shimmer'', 0.01098), (''mdvp_shimmer_db'', 0.097),
    (''shimmer_apq3'', 0.00563), (''shimmer_apq5'', 0.0068), (''mdvp_apq'', 0.00802),
    (''shimmer_dda'', 0.01689), (''nhr'', 0.00339), (''hnr'', 26.775),
    (''rpde'', 0.422229), (''dfa'', 0.741367), (''spread1'', -7.3483),
    (''spread2'', 0.177551), (''d2'', 1.743867), (''ppe'', 0.085569)]"

definition SAMPLE_PARKINSON :: FormValues where
  "SAMPLE_PARKINSON = literals [
    (''mdvp_fo'', 119.992), (''mdvp_fhi'', 157.302), (''mdvp_flo'', 74.997),
    (''mdvp_jitter_pct'', 0.00784), (''mdvp_jitter_abs'', 0.00007),
    (''mdvp_rap'', 0.0037), (''mdvp_ppq'', 0.00554), (''jitter_ddp'', 0.01109),
    (''mdvp_shimmer'', 0.04374), (''mdvp_shimmer_db'', 0.426),
    (''shimmer_apq3'', 0.02182), (''shimmer_apq5'', 0.0313), (''mdvp_apq'', 0.02971),
    (''shimmer_dda'', 0.06545), (''nhr'', 0.02211), (''hnr'', 21.033),
    (''rpde'', 0.414783), (''dfa'', 0.815285), (''spread1'', -4.813031),
    (''spread2'', 0.266482), (''d2'', 2.301442), (''ppe'', 0.284654)]"

text \<open>\<open>buildDefaults\<close>: the two nested loops write each field's default under its key.\<close>

definition buildDefaults :: FormValues where
  "buildDefaults =
     foldl (\<lambda>vals g. foldl (\<lambda>vals f. AList.update (key f) (number (default_f f)) vals) vals (fields_g g))
       [] FIELD_GROUPS"

text \<open>The keys of all fields, in the order the form shows them.\<close>

definition field_keys :: "string list" where
  "field_keys = concat (map (\<lambda>g. map key (fields_g g)) FIELD_GROUPS)"

text \<open>
  The reply of \<open>fetch\<close> as the three submit handlers see it: the promise rejects, or
  it resolves to a response that is not ok, or to one that is ok. Reading the body with
  \<open>res.json()\<close> can throw. An ok body is taken as the \<open>PredictionResult\<close>, as the
  source's type says. Numbers that arrive as JSON are finite, hence rationals.

  Of a not-ok body the handlers read \<open>err.detail\<close> only, and use it as
  \<open>new Error(err.detail || fallback)\<close>. So the body is described by what that
  expression sees: the body is \<open>null\<close>, and reading \<open>detail\<close> throws a TypeError (whose
  message, the engine's wording, is given); or \<open>detail\<close> is falsy (a missing member,
  \<open>null\<close>, \<open>false\<close>, \<open>0\<close>, the empty string, or a body that is not an object); or
  \<open>detail\<close> is truthy, and then the message of the error is \<open>String(detail)\<close>: the
  string itself, \<open>[object Object]\<close> for a list of one error object, and so on.
\<close>

datatype thrown = Error string | NonError

record spiral_metrics_t =
  circularity :: rat
  solidity :: rat
  convexity :: rat
  spiral_deviation :: rat
  roughness :: rat
  tremor_score :: rat

record PredictionResult =
  parkinson_detected :: bool
  confidence :: rat
  probability_healthy :: rat
  probability_parkinson :: rat
  risk_level :: string
  top_contributing_features :: "(string \<times> rat \<times> rat) list"
  recommendation :: string
  input_type :: "string option"
  extracted_features :: "(string \<times> rat) list option"
  spiral_metrics :: "spiral_metrics_t option"
  audio_duration_s :: "rat option"

datatype reply_detail = Falsy | Truthy string

datatype not_ok_body = BodyThrows thrown | BodyNull string | BodyWith reply_detail

datatype fetch_outcome =
    FetchRejects thrown
  | RespondsNotOk not_ok_body
  | RespondsOk "thrown + PredictionResult"

text \<open>
  A request: the body is what is sent, the JSON document of the form's values or the
  file appended to the form data.
\<close>

record 'b request =
  url :: string
  http_method :: string
  headers :: "(string \<times> string) list"
  body :: 'b

text \<open>\<open>e instanceof Error ? e.message : fallback\<close>\<close>

definition catch_message :: "string \<Rightarrow> thrown \<Rightarrow> string" where
  "catch_message fallback e = (case e of Error m \<Rightarrow> m | NonError \<Rightarrow> fallback)"

text \<open>
  The message a not-ok body leads to: the message of what \<open>res.json()\<close> threw, of the
  TypeError for a \<open>null\<close> body, or of \<open>new Error(err.detail || fallback)\<close>.
\<close>

definition not_ok_message :: "string \<Rightarrow> string \<Rightarrow> not_ok_body \<Rightarrow> string" where
  "not_ok_message not_ok_msg catch_msg b =
     (case b of
        BodyThrows e \<Rightarrow> catch_message catch_msg e
      | BodyNull m \<Rightarrow> catch_message catch_msg (Error m)
      | BodyWith Falsy \<Rightarrow> catch_message catch_msg (Error not_ok_msg)
      | BodyWith (Truthy m) \<Rightarrow> catch_message catch_msg (Error m))"

text \<open>
  What the \<open>try\<close>/\<open>catch\<close> of a submit handler makes of the reply: the error message to
  show, if any, and the result handed to \<open>onResult\<close>, if any.
\<close>

definition settle :: "string \<Rightarrow> string \<Rightarrow> fetch_outcome \<Rightarrow> string option \<times> PredictionResult option" where
  "settle not_ok_msg catch_msg out =
     (case out of
        FetchRejects e \<Rightarrow> (Some (catch_message catch_msg e), None)
      | RespondsNotOk b \<Rightarrow> (Some (not_ok_message not_ok_msg catch_msg b), None)
      | RespondsOk (Inl e) \<Rightarrow> (Some (catch_message catch_msg e), None)
      | RespondsOk (Inr data) \<Rightarrow> (None, Some data))"

record form_state =
  values_f :: FormValues
  loading_f :: bool
  error_f :: "string option"
  expanded :: "(string \<times> bool) list"

definition form_init :: form_state where
  "form_init = \<lparr> values_f = buildDefaults, loading_f = False, error_f = None,
                  expanded = [(''Fundamental Frequency'', True)] \<rparr>"

text \<open>\<open>set\<close>: the text of an input is parsed, and a falsy number is stored as 0.\<close>

definition set_value :: "string \<Rightarrow> string \<Rightarrow> form_state \<Rightarrow> form_state" where
  "set_value k val s = s\<lparr> values_f := AList.update k (or_zero (parseFloat val)) (values_f s) \<rparr>"

datatype sample_type = healthy | parkinson

definition loadSample :: "sample_type \<Rightarrow> form_state \<Rightarrow> form_state" where
  "loadSample ty s =
     s\<lparr> values_f := (if ty = healthy then SAMPLE_HEALTHY else SAMPLE_PARKINSON), error_f := None \<rparr>"

definition reset :: "form_state \<Rightarrow> form_state" where
  "reset s = s\<lparr> values_f := buildDefaults, error_f := None \<rparr>"

definition toggleGroup :: "string \<Rightarrow> form_state \<Rightarrow> form_state" where
  "toggleGroup l s =
     s\<lparr> expanded := AList.update l (\<not> (case map_of (expanded s) l of Some b \<Rightarrow> b | None \<Rightarrow> False))
                       (expanded s) \<rparr>"

text \<open>
  \<open>JSON.stringify\<close> of the values: an object with the same members in the same order,
  where a finite number is written as a number (the shortest decimal that reads back
  as the same double, so the member is given by that double) and \<open>NaN\<close> and the
  infinities are written \<open>null\<close>.
\<close>

datatype json_value = JNull | JNumber rat

definition JSON_number :: "jsnum \<Rightarrow> json_value" where
  "JSON_number v = (case v of Num r \<Rightarrow> JNumber r | _ \<Rightarrow> JNull)"

definition JSON_stringify :: "FormValues \<Rightarrow> (string \<times> json_value) list" where
  "JSON_stringify vs = map (\<lambda>(k, v). (k, JSON_number v)) vs"

text \<open>
  \<open>handleSubmit\<close> of the form: the current values are serialized and posted; the
  handler checks nothing before the request. It returns the new state, the request
  made and the result passed to \<open>onResult\<close>.
\<close>

definition handleSubmit ::
  "fetch_outcome \<Rightarrow> form_state
     \<Rightarrow> form_state \<times> (string \<times> json_value) list request \<times> PredictionResult option" where
  "handleSubmit out s =
     (let req = \<lparr> url = ''/api/predict'', http_method = ''POST'',
                  headers = [(''Content-Type'', ''application/json'')],
                  body = JSON_stringify (values_f s) \<rparr>;
          r = settle ''Prediction failed'' ''Failed to connect to backend.'' out
      in (s\<lparr> loading_f := False, error_f := fst r \<rparr>, req, snd r))"

text \<open>
  What the form renders. The inputs of a group exist only while the group is expanded
  (\<open>expanded[group.label] && ...\<close>), and an input shows
  \<open>values[field.key] ?? field.default\<close>.
\<close>

definition shown :: "form_state \<Rightarrow> field_group \<Rightarrow> bool" where
  "shown s g = (case map_of (expanded s) (label_g g) of Some b \<Rightarrow> b | None \<Rightarrow> False)"

definition shown_value :: "form_state \<Rightarrow> field \<Rightarrow> jsnum" where
  "shown_value s f =
     (case map_of (values_f s) (key f) of Some v \<Rightarrow> v | None \<Rightarrow> number (default_f f))"

text \<open>
  The form has no \<open>noValidate\<close>, so the browser validates the rendered inputs before
  it sends the submit event. An input is \<open>required\<close>, of type number, with \<open>min\<close>, \<open>max\<close>
  and \<open>step\<close>: its value must be a number (a non-finite value shows as no value), not
  below \<open>min\<close>, not above \<open>max\<close>, and on the grid \<open>min + n * step\<close>. The value and the
  attributes are written as the decimals of their doubles, so the comparisons are those
  of the doubles; a value counts as on the grid when it is the double of a grid point.
\<close>

definition on_step :: "field \<Rightarrow> rat \<Rightarrow> bool" where
  "on_step f r =
     (let n = round_half_even ((r - min_f f) / step f)
      in number (min_f f + of_int n * step f) = Num r)"

text \<open>\<open>a <= b\<close> on numbers that are both finite.\<close>

definition finite_le :: "jsnum \<Rightarrow> jsnum \<Rightarrow> bool" where
  "finite_le a b = (case a of Num x \<Rightarrow> (case b of Num y \<Rightarrow> x \<le> y | _ \<Rightarrow> False) | _ \<Rightarrow> False)"

definition input_valid :: "field \<Rightarrow> jsnum \<Rightarrow> bool" where
  "input_valid f v =
     (case v of
        Num r \<Rightarrow> finite_le (number (min_f f)) v \<and> finite_le v (number (max_f f)) \<and> on_step f r
      | _ \<Rightarrow> False)"

definition can_submit :: "form_state \<Rightarrow> bool" where
  "can_submit s =
     list_all (\<lambda>g. if shown s g then list_all (\<lambda>f. input_valid f (shown_value s f)) (fields_g g)
                   else True) FIELD_GROUPS"

text \<open>
  The events of the form: a change of the input of a field (possible only while its
  group is expanded), the sample and reset buttons, the button of a group, and the
  submit button together with the reply to the request. A submit that the browser's
  validation refuses does not reach \<open>handleSubmit\<close>.
\<close>

datatype form_event =
    Change string string
  | LoadSample sample_type
  | Reset
  | ToggleGroup string
  | Submit fetch_outcome

definition editable :: "form_state \<Rightarrow> string \<Rightarrow> bool" where
  "editable s k = list_ex (\<lambda>g. shown s g \<and> k \<in> set (map key (fields_g g))) FIELD_GROUPS"

fun form_step :: "form_state \<Rightarrow> form_event \<Rightarrow> form_state" where
  "form_step s (Change k val) = (if editable s k then set_value k val s else s)"
| "form_step s (LoadSample ty) = loadSample ty s"
| "form_step s Reset = reset s"
| "form_step s (ToggleGroup l) =
     (if l \<in> set (map label_g FIELD_GROUPS) then toggleGroup l s else s)"
| "form_step s (Submit out) = (if can_submit s then fst (handleSubmit out s) else s)"

definition form_run :: "form_event list \<Rightarrow> form_state" where
  "form_run evs = foldl form_step form_init evs"

subsection \<open>The importance badge\<close>

record metrics =
  accuracy :: rat
  recall :: rat
  mcc :: rat
  auc :: rat

text \<open>
  \<open>Metadata\<close>. The records with string keys are association lists in the order
  \<open>Object.keys\<close> enumerates them, with pairwise different keys.
\<close>

record Metadata =
  feature_names :: "string list"
  feature_descriptions :: "(string \<times> string) list"
  shap_importance :: "(string \<times> rat) list"
  model_comparison :: "(string \<times> metrics) list"
  best_model_by_recall :: string

text \<open>
  \<open>toLowerCase\<close> on the letters A to Z. Every other 8-bit character is mapped by
  JavaScript to itself or to another character outside \<open>a-z0-9\<close>, which the
  replacement that follows deletes in either case.
\<close>

definition toLowerCase :: "string \<Rightarrow> string" where
  "toLowerCase s =
     map (\<lambda>c. case map_of (zip ''ABCDEFGHIJKLMNOPQRSTUVWXYZ'' ''abcdefghijklmnopqrstuvwxyz'') c of
                 Some l \<Rightarrow> l | None \<Rightarrow> c) s"

text \<open>\<open>s.toLowerCase().replace(/[^a-z0-9]/g, "")\<close>\<close>

definition normalize :: "string \<Rightarrow> string" where
  "normalize s = filter (\<lambda>c. c \<in> set ''abcdefghijklmnopqrstuvwxyz0123456789'') (toLowerCase s)"

text \<open>\<open>Array.prototype.indexOf\<close>: the first position of the element, or -1.\<close>

fun indexOf :: "'a list \<Rightarrow> 'a \<Rightarrow> int" where
  "indexOf [] x = -1"
| "indexOf (y # ys) x = (if y = x then 0 else (let i = indexOf ys x in if i < 0 then -1 else i + 1))"

text \<open>
  \<open>isImportant\<close>. Without metadata the expression is \<open>undefined\<close> (\<open>None\<close>); otherwise it
  is the comparison. \<open>find\<close> returns the first key with the label's normal form, and
  \<open>|| ""\<close> replaces a missing (or empty) key by the empty string.
\<close>

definition isImportant :: "Metadata option \<Rightarrow> field \<Rightarrow> bool option" where
  "isImportant metadata f =
     (case metadata of
        None \<Rightarrow> None
      | Some md \<Rightarrow>
          let keys = map fst (shap_importance md);
              found = find (\<lambda>k. normalize k = normalize (label f)) keys;
              needle = (case found of None \<Rightarrow> [] | Some k \<Rightarrow> if k = [] then [] else k)
          in Some (indexOf keys needle < 5))"

section \<open>The upload widgets (AudioUpload, HandwritingUpload)\<close>

record js_file =
  name :: string
  contents :: string

text \<open>
  Case-insensitive matching of a regular expression compares characters after
  \<open>Canonicalize\<close>, which upper-cases. On 8-bit characters only the letters a to z
  have an upper-case form among the characters of the patterns below.
\<close>

definition canonicalize :: "char \<Rightarrow> char" where
  "canonicalize c =
     (case map_of (zip ''abcdefghijklmnopqrstuvwxyz'' ''ABCDEFGHIJKLMNOPQRSTUVWXYZ'') c of
        Some u \<Rightarrow> u | None \<Rightarrow> c)"

text \<open>
  \<open>/\.(alt1|alt2|...)$/i\<close> at one start position: a dot, one of the alternatives, then
  the end of the input.
\<close>

definition match_here :: "string list \<Rightarrow> string \<Rightarrow> bool" where
  "match_here alts rest =
     list_ex (\<lambda>alt. map canonicalize rest = map canonicalize (CHR ''.'' # alt)) alts"

text \<open>\<open>String.prototype.match\<close>, as a truth value: every start position is tried in turn.\<close>

fun regex_match :: "string list \<Rightarrow> string \<Rightarrow> bool" where
  "regex_match alts [] = match_here alts []"
| "regex_match alts (c # cs) = (match_here alts (c # cs) \<or> regex_match alts cs)"

definition audio_alts :: "string list" where
  "audio_alts = [''wav'', ''mp3'', ''ogg'', ''flac'']"

definition image_alts :: "string list" where
  "image_alts = [''png'', ''jpg'', ''jpeg'', ''bmp'', ''tiff'']"

record upload_state =
  file_u :: "js_file option"
  dragging :: bool
  loading :: bool
  error :: "string option"
  uploaded :: bool

text \<open>
  The handwriting widget also keeps a preview. It holds the data URL that the
  \<open>FileReader\<close> produces for a file; the model records which file that is.
\<close>

record hw_state = upload_state +
  preview :: "js_file option"

definition AudioUpload_init :: upload_state where
  "AudioUpload_init = \<lparr> file_u = None, dragging = False, loading = False, error = None, uploaded = False \<rparr>"

definition HandwritingUpload_init :: hw_state where
  "HandwritingUpload_init =
     \<lparr> file_u = None, dragging = False, loading = False, error = None, uploaded = False, preview = None \<rparr>"

definition AudioUpload_handleFile :: "js_file \<Rightarrow> upload_state \<Rightarrow> upload_state" where
  "AudioUpload_handleFile f s =
     (let s1 = s\<lparr> error := None, uploaded := False \<rparr>
      in if \<not> regex_match audio_alts (name f)
         then s1\<lparr> error := Some ''Unsupported format. Please upload a WAV, MP3, OGG, or FLAC file.'' \<rparr>
         else s1\<lparr> file_u := Some f \<rparr>)"

definition HandwritingUpload_handleFile :: "js_file \<Rightarrow> hw_state \<Rightarrow> hw_state" where
  "HandwritingUpload_handleFile f s =
     (let s1 = s\<lparr> error := None, uploaded := False \<rparr>
      in if \<not> regex_match image_alts (name f)
         then s1\<lparr> error := Some ''Unsupported format. Please upload a PNG or JPG image.'' \<rparr>
         else s1\<lparr> file_u := Some f, preview := Some f \<rparr>)"

text \<open>
  \<open>handleSubmit\<close> of the two widgets: nothing is sent without a stored file; otherwise
  the stored file is posted. The result is the new state, the request if one was made,
  and the result passed to \<open>onResult\<close>.
\<close>

definition AudioUpload_handleSubmit ::
  "fetch_outcome \<Rightarrow> upload_state \<Rightarrow> upload_state \<times> js_file request option \<times> PredictionResult option" where
  "AudioUpload_handleSubmit out s =
     (case file_u s of
        None \<Rightarrow> (s, None, None)
      | Some f \<Rightarrow>
          let req = \<lparr> url = ''/api/predict/audio'', http_method = ''POST'', headers = [], body = f \<rparr>;
              r = settle ''Audio analysis failed'' ''Failed to analyze audio.'' out
          in (s\<lparr> loading := False, error := fst r, uploaded := (snd r \<noteq> None \<or> uploaded s) \<rparr>,
              Some req, snd r))"

definition HandwritingUpload_handleSubmit ::
  "fetch_outcome \<Rightarrow> hw_state \<Rightarrow> hw_state \<times> js_file request option \<times> PredictionResult option" where
  "HandwritingUpload_handleSubmit out s =
     (case file_u s of
        None \<Rightarrow> (s, None, None)
      | Some f \<Rightarrow>
          let req = \<lparr> url = ''/api/predict/handwriting'', http_method = ''POST'', headers = [], body = f \<rparr>;
              r = settle ''Image analysis failed'' ''Failed to analyze image.'' out
          in (s\<lparr> loading := False, error := fst r, uploaded := (snd r \<noteq> None \<or> uploaded s) \<rparr>,
              Some req, snd r))"

text \<open>
  The events of a widget: a drop or a file-input change with a list of files (the
  handlers look at the first one only), the drag highlights, the clear button and the
  analyze button together with the reply to its request.
\<close>

datatype upload_event =
    Drop "js_file list"
  | InputChange "js_file list"
  | DragOver
  | DragLeave
  | ClearClick
  | SubmitClick fetch_outcome

fun AudioUpload_step :: "upload_state \<Rightarrow> upload_event \<Rightarrow> upload_state \<times> js_file request option" where
  "AudioUpload_step s (Drop fs) =
     (case fs of [] \<Rightarrow> (s\<lparr> dragging := False \<rparr>, None)
      | f # _ \<Rightarrow> (AudioUpload_handleFile f (s\<lparr> dragging := False \<rparr>), None))"
| "AudioUpload_step s (InputChange fs) =
     (case fs of [] \<Rightarrow> (s, None) | f # _ \<Rightarrow> (AudioUpload_handleFile f s, None))"
| "AudioUpload_step s DragOver = (s\<lparr> dragging := True \<rparr>, None)"
| "AudioUpload_step s DragLeave = (s\<lparr> dragging := False \<rparr>, None)"
| "AudioUpload_step s ClearClick = (s\<lparr> file_u := None, error := None, uploaded := False \<rparr>, None)"
| "AudioUpload_step s (SubmitClick out) =
     (let r = AudioUpload_handleSubmit out s in (fst r, fst (snd r)))"

fun HandwritingUpload_step :: "hw_state \<Rightarrow> upload_event \<Rightarrow> hw_state \<times> js_file request option" where
  "HandwritingUpload_step s (Drop fs) =
     (case fs of [] \<Rightarrow> (s\<lparr> dragging := False \<rparr>, None)
      | f # _ \<Rightarrow> (HandwritingUpload_handleFile f (s\<lparr> dragging := False \<rparr>), None))"
| "HandwritingUpload_step s (InputChange fs) =
     (case fs of [] \<Rightarrow> (s, None) | f # _ \<Rightarrow> (HandwritingUpload_handleFile f s, None))"
| "HandwritingUpload_step s DragOver = (s\<lparr> dragging := True \<rparr>, None)"
| "HandwritingUpload_step s DragLeave = (s\<lparr> dragging := False \<rparr>, None)"
| "HandwritingUpload_step s ClearClick =
     (s\<lparr> file_u := None, error := None, uploaded := False, preview := None \<rparr>, None)"
| "HandwritingUpload_step s (SubmitClick out) =
     (let r = HandwritingUpload_handleSubmit out s in (fst r, fst (snd r)))"

text \<open>Running a widget over a list of events, collecting the requests it makes.\<close>

fun run_widget :: "('s \<Rightarrow> upload_event \<Rightarrow> 's \<times> js_file request option) \<Rightarrow> 's \<Rightarrow> upload_event list
    \<Rightarrow> 's \<times> js_file request list" where
  "run_widget stp s [] = (s, [])"
| "run_widget stp s (e # es) =
     (let r = stp s e; q = run_widget stp (fst r) es
      in (fst q, (case snd r of None \<Rightarrow> [] | Some req \<Rightarrow> [req]) @ snd q))"

text \<open>
  The extension of a file name, in the usual sense: the text after its last dot, if it
  has a dot. A name has one of the listed extensions when its extension equals one of
  them up to the case of letters.
\<close>

definition extension :: "string \<Rightarrow> string option" where
  "extension nm =
     (if CHR ''.'' \<in> set nm then Some (rev (takeWhile (\<lambda>c. c \<noteq> CHR ''.'') (rev nm))) else None)"

definition has_extension :: "string list \<Rightarrow> string \<Rightarrow> bool" where
  "has_extension exts nm =
     (case extension nm of None \<Rightarrow> False
      | Some e \<Rightarrow> map canonicalize e \<in> set (map (map canonicalize) exts))"

text \<open>The invariant of a widget: a stored file has a name the widget's pattern matches.\<close>

definition stored_ok :: "string list \<Rightarrow> 'a upload_state_scheme \<Rightarrow> bool" where
  "stored_ok alts s = (case file_u s of None \<Rightarrow> True | Some g \<Rightarrow> regex_match alts (name g))"

section \<open>The result panel (ResultPanel)\<close>

record risk_style =
  icon :: string
  bg :: string
  text_c :: string
  bar :: string

text \<open>The own properties of the object literal \<open>RISK_CONFIG\<close>.\<close>

definition RISK_CONFIG :: "(string \<times> risk_style) list" where
  "RISK_CONFIG = [
    (''Very Low'', \<lparr> icon = ''CheckCircle2'', bg = ''bg-emerald-500/10 border-emerald-500/20'', text_c = ''text-emerald-400'', bar = ''bg-emerald-500'' \<rparr>),
    (''Low'', \<lparr> icon = ''Activity'', bg = ''bg-yellow-500/10 border-yellow-500/20'', text_c = ''text-yellow-400'', bar = ''bg-yellow-500'' \<rparr>),
    (''Moderate'', \<lparr> icon = ''AlertTriangle'', bg = ''bg-orange-500/10 border-orange-500/20'', text_c = ''text-orange-400'', bar = ''bg-orange-500'' \<rparr>),
    (''High'', \<lparr> icon = ''AlertTriangle'', bg = ''bg-red-500/10 border-red-500/20'', text_c = ''text-red-400'', bar = ''bg-red-500'' \<rparr>)]"

text \<open>
  An object literal inherits from \<open>Object.prototype\<close>, and \<open>obj[k]\<close> follows the
  prototype chain: a name that is not an own property but a property of
  \<open>Object.prototype\<close> yields that inherited value (a function, or the prototype
  object for \<open>__proto__\<close>), which is neither \<open>undefined\<close> nor \<open>null\<close>.
\<close>

definition Object_prototype :: "string list" where
  "Object_prototype = [''constructor'', ''hasOwnProperty'', ''isPrototypeOf'',
     ''propertyIsEnumerable'', ''toLocaleString'', ''toString'', ''valueOf'', ''__proto__'',
     ''__defineGetter__'', ''__defineSetter__'', ''__lookupGetter__'', ''__lookupSetter__'']"

datatype 'a js_value = Undefined | Own 'a | Inherited string

definition get_prop :: "(string \<times> 'a) list \<Rightarrow> string \<Rightarrow> 'a js_value" where
  "get_prop obj k =
     (case map_of obj k of
        Some v \<Rightarrow> Own v
      | None \<Rightarrow> if k \<in> set Object_prototype then Inherited k else Undefined)"

text \<open>\<open>a ?? b\<close>\<close>

definition nullish_or :: "'a js_value \<Rightarrow> 'a js_value \<Rightarrow> 'a js_value" where
  "nullish_or a b = (case a of Undefined \<Rightarrow> b | _ \<Rightarrow> a)"

text \<open>
  The value of \<open>cfg\<close> in \<open>ResultPanel\<close>; without a result the panel returns its
  placeholder before \<open>cfg\<close> is computed (\<open>None\<close>).
\<close>

definition ResultPanel_cfg :: "PredictionResult option \<Rightarrow> risk_style js_value option" where
  "ResultPanel_cfg result =
     (case result of
        None \<Rightarrow> None
      | Some r \<Rightarrow> Some (nullish_or (get_prop RISK_CONFIG (risk_level r)) (get_prop RISK_CONFIG ''High'')))"

section \<open>The dashboard (ModelDashboard)\<close>

text \<open>
  \<open>parseFloat(val.toFixed(4))\<close>: the value rounded to four decimals, a tie going away
  from zero.
\<close>

definition toFixed4 :: "rat \<Rightarrow> rat" where
  "toFixed4 x =
     (let n = \<lfloor>\<bar>x\<bar> * 10000 + 1 / 2\<rfloor>
      in if x < 0 then - (of_int n / 10000) else of_int n / 10000)"

text \<open>\<open>shapData\<close>: the first ten entries of \<open>shap_importance\<close>, each with its rounded value.\<close>

definition shapData :: "Metadata \<Rightarrow> (string \<times> rat) list" where
  "shapData md = map (\<lambda>(n, val). (n, toFixed4 val)) (take 10 (shap_importance md))"

section \<open>The backend contract\<close>

text \<open>
  Modelled from the spec: the derivation of \<open>risk_level\<close> from \<open>probability_parkinson\<close>,
  which the backend computes and the components only display. The thresholds are the
  ones the data model names: below 0.25 VeryLow, below 0.5 Low, below 0.75 Moderate,
  High otherwise.
\<close>

datatype RiskLevel = VeryLow | Low | Moderate | High

definition risk_level_of :: "rat \<Rightarrow> RiskLevel" where
  "risk_level_of p =
     (if p < 0.25 then VeryLow else if p < 0.5 then Low else if p < 0.75 then Moderate else High)"

text \<open>The order of the risk levels, from the lowest to the highest.\<close>

fun severity :: "RiskLevel \<Rightarrow> nat" where
  "severity VeryLow = 0"
| "severity Low = 1"
| "severity Moderate = 2"
| "severity High = 3"

text \<open>
  Modelled from the spec: the validation stage of \<open>predict_from_features\<close>, which
  belongs to the backend and is not among the components. The operation returns a
  \<open>PredictionResult\<close> or an error, \<open>MissingField\<close> or \<open>OutOfRange\<close>, and stops at the
  first failed stage; any missing field is a validation error and is never filled with
  a zero. The raw input is the JSON object of the request; a required field is missing
  when the object has no member of that name or the member is not a number. The range
  check and the stages after validation are parameters.
\<close>

datatype ValidationError = MissingField | OutOfRange

definition feature_vector :: "(string \<times> json_value) list \<Rightarrow> rat list option" where
  "feature_vector raw =
     those (map (\<lambda>k. case map_of raw k of Some (JNumber x) \<Rightarrow> Some x | _ \<Rightarrow> None) field_keys)"

definition predict_from_features ::
  "(rat list \<Rightarrow> bool) \<Rightarrow> (rat list \<Rightarrow> PredictionResult) \<Rightarrow> (string \<times> json_value) list
     \<Rightarrow> ValidationError + PredictionResult" where
  "predict_from_features in_range pipeline raw =
     (case feature_vector raw of
        None \<Rightarrow> Inl MissingField
      | Some fv \<Rightarrow> if in_range fv then Inr (pipeline fv) else Inl OutOfRange)"

text \<open>
  Modelled from the spec: the metadata service, which is not among the components. The
  metadata is computed once before serving and held as process-wide state;
  \<open>shap_importance\<close> is filled in ranked order, the feature with the greatest global
  importance first; \<open>get_metadata\<close> is a pure read that returns the metadata and leaves
  the state as it is.
\<close>

definition ranked :: "(string \<times> rat) list \<Rightarrow> (string \<times> rat) list" where
  "ranked imps = sort_key (\<lambda>e. - snd e) imps"

record server =
  metadata :: Metadata

definition startup :: "Metadata \<Rightarrow> server" where
  "startup report = \<lparr> metadata = report\<lparr> shap_importance := ranked (shap_importance report) \<rparr> \<rparr>"

definition get_metadata :: "server \<Rightarrow> Metadata \<times> server" where
  "get_metadata srv = (metadata srv, srv)"

text \<open>
  The invariant of the form: its values hold exactly the keys of the fields, in their
  order, and no value is \<open>NaN\<close>.
\<close>

definition complete_values :: "FormValues \<Rightarrow> bool" where
  "complete_values vs = (map fst vs = field_keys \<and> NaN \<notin> snd ` set vs)"

section \<open>Properties\<close>

subsection \<open>The field groups\<close>

lemma field_keys_eval:
  "field_keys = [''mdvp_fo'', ''mdvp_fhi'', ''mdvp_flo'', ''mdvp_jitter_pct'', ''mdvp_jitter_abs'',
     ''mdvp_rap'', ''mdvp_ppq'', ''jitter_ddp'', ''mdvp_shimmer'', ''mdvp_shimmer_db'',
     ''shimmer_apq3'', ''shimmer_apq5'', ''mdvp_apq'', ''shimmer_dda'', ''nhr'', ''hnr'',
     ''rpde'', ''dfa'', ''spread1'', ''spread2'', ''d2'', ''ppe'']"
  by (simp add: field_keys_def FIELD_GROUPS_def)

lemma buildDefaults_keys: "map fst buildDefaults = field_keys"
  by (simp add: buildDefaults_def field_keys_def FIELD_GROUPS_def)

lemma number_not_NaN: "number x \<noteq> NaN" "NaN \<noteq> number x"
  by (simp_all add: number_def Let_def)

lemma literals_no_NaN: "NaN \<notin> snd ` set (literals kvs)"
  by (auto simp: literals_def number_not_NaN)

lemma buildDefaults_no_NaN: "NaN \<notin> snd ` set buildDefaults"
  by (simp add: buildDefaults_def FIELD_GROUPS_def number_not_NaN)

lemma samples_keys:
  "map fst SAMPLE_HEALTHY = field_keys" "map fst SAMPLE_PARKINSON = field_keys"
  by (simp_all add: SAMPLE_HEALTHY_def SAMPLE_PARKINSON_def literals_def field_keys_eval)

lemma samples_no_NaN:
  "NaN \<notin> snd ` set SAMPLE_HEALTHY" "NaN \<notin> snd ` set SAMPLE_PARKINSON"
  by (simp_all add: SAMPLE_HEALTHY_def SAMPLE_PARKINSON_def literals_no_NaN)


text \<open>
  C5. The form's field groups are, in this order, the fundamental-frequency triplet
  (3 fields), 5 jitter measures, 6 shimmer measures, 2 noise-ratio measures and 6
  nonlinear-dynamics measures: 22 fields with pairwise different keys, in the same
  order as the keys of the two sample vectors.
\<close>

theorem FIELD_GROUPS_partition:
  "map label_g FIELD_GROUPS =
     [''Fundamental Frequency'', ''Jitter (Frequency Variation)'',
      ''Shimmer (Amplitude Variation)'', ''Noise & Harmonics'', ''Nonlinear Dynamics'']
   \<and> map (\<lambda>g. length (fields_g g)) FIELD_GROUPS = [3, 5, 6, 2, 6]
   \<and> map (\<lambda>g. map key (fields_g g)) FIELD_GROUPS =
       [[''mdvp_fo'', ''mdvp_fhi'', ''mdvp_flo''],
        [''mdvp_jitter_pct'', ''mdvp_jitter_abs'', ''mdvp_rap'', ''mdvp_ppq'', ''jitter_ddp''],
        [''mdvp_shimmer'', ''mdvp_shimmer_db'', ''shimmer_apq3'', ''shimmer_apq5'', ''mdvp_apq'',
         ''shimmer_dda''],
        [''nhr'', ''hnr''],
        [''rpde'', ''dfa'', ''spread1'', ''spread2'', ''d2'', ''ppe'']]
   \<and> length field_keys = 22
   \<and> distinct field_keys
   \<and> map fst SAMPLE_HEALTHY = field_keys
   \<and> map fst SAMPLE_PARKINSON = field_keys
   \<and> map fst buildDefaults = field_keys"
  by (simp add: FIELD_GROUPS_def field_keys_def SAMPLE_HEALTHY_def SAMPLE_PARKINSON_def
      literals_def buildDefaults_def)


subsection \<open>Submitting the form\<close>

lemma or_zero_not_NaN: "or_zero x \<noteq> NaN"
  by (cases x) (simp_all add: or_zero_def)

lemma update_no_NaN:
  assumes "NaN \<notin> snd ` set vs" "v \<noteq> NaN"
  shows "NaN \<notin> snd ` set (AList.update k v vs)"
  using assms by (induction vs) auto

lemma update_map_of_same: "map_of (AList.update k v vs) k = Some v"
  by (simp add: update_conv')

lemma group_labels_eval:
  "map label_g FIELD_GROUPS =
     [''Fundamental Frequency'', ''Jitter (Frequency Variation)'',
      ''Shimmer (Amplitude Variation)'', ''Noise & Harmonics'', ''Nonlinear Dynamics'']"
  by (simp add: FIELD_GROUPS_def)

lemma editable_field_key: "editable s k \<Longrightarrow> k \<in> set field_keys"
  by (auto simp: editable_def list_ex_iff field_keys_def)

lemma form_step_complete:
  assumes "complete_values (values_f s)"
  shows "complete_values (values_f (form_step s e))"
proof (cases e)
  case (Change k val)
  show ?thesis
  proof (cases "editable s k")
    case True
    then have k: "k \<in> set field_keys" by (rule editable_field_key)
    with assms have "map fst (AList.update k (or_zero (parseFloat val)) (values_f s)) = field_keys"
      by (simp add: complete_values_def update_keys)
    moreover have "NaN \<notin> snd ` set (AList.update k (or_zero (parseFloat val)) (values_f s))"
      using assms or_zero_not_NaN by (intro update_no_NaN) (simp_all add: complete_values_def)
    ultimately show ?thesis using Change True by (simp add: complete_values_def set_value_def)
  next
    case False
    with assms Change show ?thesis by simp
  qed
next
  case (LoadSample ty)
  then show ?thesis
    by (simp add: loadSample_def complete_values_def samples_keys samples_no_NaN)
next
  case Reset
  then show ?thesis
    by (simp add: reset_def complete_values_def buildDefaults_keys buildDefaults_no_NaN)
next
  case (ToggleGroup l)
  with assms show ?thesis by (simp add: toggleGroup_def)
next
  case (Submit out)
  with assms show ?thesis by (simp add: handleSubmit_def Let_def)
qed

lemma form_run_complete: "complete_values (values_f (form_run evs))"
proof (induction evs rule: rev_induct)
  case Nil
  then show ?case
    by (simp add: form_run_def form_init_def complete_values_def buildDefaults_keys
        buildDefaults_no_NaN)
next
  case (snoc e evs)
  then show ?case using form_step_complete by (simp add: form_run_def)
qed

lemma parseFloat_empty: "parseFloat [] = NaN"
  by (simp add: parseFloat_def)

lemma parseFloat_abc: "parseFloat ''abc'' = NaN"
  by (simp add: parseFloat_def is_ws_def is_digit_def)

lemma JSON_stringify_keys: "map fst (JSON_stringify vs) = map fst vs"
  by (induction vs) (auto simp: JSON_stringify_def)

lemma JSON_stringify_map_of:
  "map_of (JSON_stringify vs) k = map_option JSON_number (map_of vs k)"
  by (induction vs) (auto simp: JSON_stringify_def)

lemma those_None: "None \<in> set xs \<Longrightarrow> those xs = None"
  by (induction xs) (auto split: option.splits)

lemma feature_vector_missing:
  assumes "k \<in> set field_keys" "\<forall>x. map_of raw k \<noteq> Some (JNumber x)"
  shows "feature_vector raw = None"
proof -
  have "(case map_of raw k of Some (JNumber x) \<Rightarrow> Some x | _ \<Rightarrow> None) = None"
    using assms(2) by (auto split: option.splits json_value.splits)
  then have "None \<in> set (map (\<lambda>k. case map_of raw k of Some (JNumber x) \<Rightarrow> Some x | _ \<Rightarrow> None)
      field_keys)"
    using assms(1) by (metis (mono_tags, lifting) image_eqI set_map)
  then show ?thesis unfolding feature_vector_def by (rule those_None)
qed

text \<open>
  C1, with what the form does in place of its last clause. For every input in which one
  of the 22 required fields is missing or not a number, \<open>predict_from_features\<close> yields
  \<open>MissingField\<close> and no \<open>PredictionResult\<close>. The form, however, does replace an
  unreadable entry by zero before submission: \<open>set\<close> stores 0 for any entry that
  \<open>parseFloat\<close> cannot read or reads as zero, so after any sequence of events the values
  hold all 22 keys and none is \<open>NaN\<close>, and \<open>handleSubmit\<close> posts their JSON serialization,
  a non-finite value written as \<open>null\<close>, to \<open>/api/predict\<close> without a check of its own. A
  result reaches \<open>onResult\<close> only from an ok response with a readable body. A response
  that is not ok gives no result and shows the thrown message when its body is
  unreadable or \<open>null\<close>, the string form of \<open>detail\<close> when \<open>detail\<close> is truthy, and
  "Prediction failed" otherwise.
\<close>

theorem form_posts_zero_for_unreadable:
  "(k \<in> set field_keys \<longrightarrow> (\<forall>x. map_of raw k \<noteq> Some (JNumber x)) \<longrightarrow>
      predict_from_features in_range pipeline raw = Inl MissingField)
   \<and> (\<not> truthy (parseFloat val) \<longrightarrow> map_of (values_f (set_value k val s)) k = Some (Num 0))
   \<and> map fst (values_f (form_run evs)) = field_keys
   \<and> NaN \<notin> snd ` set (values_f (form_run evs))
   \<and> fst (snd (handleSubmit out s))
       = \<lparr> url = ''/api/predict'', http_method = ''POST'',
           headers = [(''Content-Type'', ''application/json'')],
           body = JSON_stringify (values_f s) \<rparr>
   \<and> map fst (JSON_stringify (values_f s)) = map fst (values_f s)
   \<and> map_of (JSON_stringify (values_f s)) k
       = (case map_of (values_f s) k of
            None \<Rightarrow> None | Some (Num r) \<Rightarrow> Some (JNumber r) | Some _ \<Rightarrow> Some JNull)
   \<and> snd (snd (handleSubmit out s))
       = (case out of RespondsOk (Inr data) \<Rightarrow> Some data | _ \<Rightarrow> None)
   \<and> snd (snd (handleSubmit (RespondsNotOk b) s)) = None
   \<and> error_f (fst (handleSubmit (RespondsNotOk b) s))
       = Some (case b of
                 BodyThrows (Error m) \<Rightarrow> m
               | BodyThrows NonError \<Rightarrow> ''Failed to connect to backend.''
               | BodyNull m \<Rightarrow> m
               | BodyWith (Truthy m) \<Rightarrow> m
               | BodyWith Falsy \<Rightarrow> ''Prediction failed'')"
proof -
  have "complete_values (values_f (form_run evs))" by (rule form_run_complete)
  then have a: "map fst (values_f (form_run evs)) = field_keys"
    and b: "NaN \<notin> snd ` set (values_f (form_run evs))"
    by (simp_all add: complete_values_def)
  have c: "\<not> truthy (parseFloat val) \<longrightarrow> map_of (values_f (set_value k val s)) k = Some (Num 0)"
    by (simp add: set_value_def update_map_of_same or_zero_def)
  have d: "fst (snd (handleSubmit out s))
       = \<lparr> url = ''/api/predict'', http_method = ''POST'',
           headers = [(''Content-Type'', ''application/json'')],
           body = JSON_stringify (values_f s) \<rparr>"
    by (simp add: handleSubmit_def Let_def)
  have e: "snd (snd (handleSubmit out s))
       = (case out of RespondsOk (Inr data) \<Rightarrow> Some data | _ \<Rightarrow> None)"
    by (simp add: handleSubmit_def Let_def settle_def split: fetch_outcome.splits sum.splits)
  have f: "snd (snd (handleSubmit (RespondsNotOk b) s)) = None"
    by (simp add: handleSubmit_def Let_def settle_def)
  have g: "error_f (fst (handleSubmit (RespondsNotOk b) s))
       = Some (case b of
                 BodyThrows (Error m) \<Rightarrow> m
               | BodyThrows NonError \<Rightarrow> ''Failed to connect to backend.''
               | BodyNull m \<Rightarrow> m
               | BodyWith (Truthy m) \<Rightarrow> m
               | BodyWith Falsy \<Rightarrow> ''Prediction failed'')"
    by (simp add: handleSubmit_def Let_def settle_def not_ok_message_def catch_message_def
        split: not_ok_body.splits thrown.splits reply_detail.splits)
  have h: "k \<in> set field_keys \<longrightarrow> (\<forall>x. map_of raw k \<noteq> Some (JNumber x)) \<longrightarrow>
      predict_from_features in_range pipeline raw = Inl MissingField"
    by (simp add: predict_from_features_def feature_vector_missing)
  have i: "map_of (JSON_stringify (values_f s)) k
       = (case map_of (values_f s) k of
            None \<Rightarrow> None | Some (Num r) \<Rightarrow> Some (JNumber r) | Some _ \<Rightarrow> Some JNull)"
    by (simp add: JSON_stringify_map_of JSON_number_def split: option.splits jsnum.splits)
  from a b c d e f g h i JSON_stringify_keys show ?thesis by blast
qed

theorem form_posts_zero_for_unreadable_witness:
  "''ppe'' \<in> set field_keys
   \<and> map_of [(''mdvp_fo'', JNumber 119.992), (''ppe'', JNull)] ''ppe'' = Some JNull
   \<and> predict_from_features (\<lambda>fv. True)
        (\<lambda>fv. \<lparr> parkinson_detected = False, confidence = 1, probability_healthy = 1,
                 probability_parkinson = 0, risk_level = ''Very Low'',
                 top_contributing_features = [], recommendation = [], input_type = None,
                 extracted_features = None, spiral_metrics = None, audio_duration_s = None \<rparr>)
        [(''mdvp_fo'', JNumber 119.992), (''ppe'', JNull)] = Inl MissingField
   \<and> \<not> truthy (parseFloat ''abc'')
   \<and> map_of (values_f (set_value ''ppe'' ''abc'' form_init)) ''ppe'' = Some (Num 0)"
proof -
  have h1: "''ppe'' \<in> set field_keys" by (simp add: field_keys_eval)
  have h2: "map_of [(''mdvp_fo'', JNumber 119.992), (''ppe'', JNull)] ''ppe'' = Some JNull"
    by simp
  then have h2': "\<forall>x. map_of [(''mdvp_fo'', JNumber 119.992), (''ppe'', JNull)] ''ppe''
      \<noteq> Some (JNumber x)"
    by simp
  have h3: "\<not> truthy (parseFloat ''abc'')" by (simp add: parseFloat_abc)
  note inst = form_posts_zero_for_unreadable [of "''ppe''"
      "[(''mdvp_fo'', JNumber 119.992), (''ppe'', JNull)]" "\<lambda>fv. True"
      "\<lambda>fv. \<lparr> parkinson_detected = False, confidence = 1, probability_healthy = 1,
                 probability_parkinson = 0, risk_level = ''Very Low'',
                 top_contributing_features = [], recommendation = [], input_type = None,
                 extracted_features = None, spiral_metrics = None, audio_duration_s = None \<rparr>"
      "''abc''" form_init]
  have a: "predict_from_features (\<lambda>fv. True)
        (\<lambda>fv. \<lparr> parkinson_detected = False, confidence = 1, probability_healthy = 1,
                 probability_parkinson = 0, risk_level = ''Very Low'',
                 top_contributing_features = [], recommendation = [], input_type = None,
                 extracted_features = None, spiral_metrics = None, audio_duration_s = None \<rparr>)
        [(''mdvp_fo'', JNumber 119.992), (''ppe'', JNull)] = Inl MissingField"
    using inst h1 h2' by blast
  have b: "map_of (values_f (set_value ''ppe'' ''abc'' form_init)) ''ppe'' = Some (Num 0)"
    using inst h3 by blast
  from h1 h2 h3 a b show ?thesis by blast
qed

lemma collapsed_cannot_refuse:
  assumes "\<forall>l\<in>set (map label_g FIELD_GROUPS). map_of (expanded s) l \<noteq> Some True"
  shows "can_submit s"
  using assms by (auto simp: can_submit_def list_all_iff shown_def split: option.splits)

lemma cleared_ppe_expanded:
  "expanded (form_run [ToggleGroup ''Nonlinear Dynamics'', Change ''ppe'' [],
      ToggleGroup ''Nonlinear Dynamics'', ToggleGroup ''Fundamental Frequency''])
   = [(''Fundamental Frequency'', False), (''Nonlinear Dynamics'', False)]"
  by (simp add: form_run_def form_init_def group_labels_eval toggleGroup_def set_value_def)

lemma cleared_ppe_editable:
  "editable (form_run [ToggleGroup ''Nonlinear Dynamics'']) ''ppe''"
  by (simp add: form_run_def form_init_def group_labels_eval toggleGroup_def editable_def
      shown_def FIELD_GROUPS_def)

lemma cleared_ppe_values:
  "values_f (form_run [ToggleGroup ''Nonlinear Dynamics'', Change ''ppe'' [],
      ToggleGroup ''Nonlinear Dynamics'', ToggleGroup ''Fundamental Frequency''])
   = AList.update ''ppe'' (Num 0) buildDefaults"
proof -
  have "form_run [ToggleGroup ''Nonlinear Dynamics'', Change ''ppe'' []]
      = set_value ''ppe'' [] (form_run [ToggleGroup ''Nonlinear Dynamics''])"
    using cleared_ppe_editable by (simp add: form_run_def)
  then have "values_f (form_run [ToggleGroup ''Nonlinear Dynamics'', Change ''ppe'' []])
      = AList.update ''ppe'' (Num 0) buildDefaults"
    by (simp add: set_value_def parseFloat_empty or_zero_def form_run_def form_init_def
        group_labels_eval toggleGroup_def)
  moreover have "values_f (form_run [ToggleGroup ''Nonlinear Dynamics'', Change ''ppe'' [],
      ToggleGroup ''Nonlinear Dynamics'', ToggleGroup ''Fundamental Frequency''])
    = values_f (form_run [ToggleGroup ''Nonlinear Dynamics'', Change ''ppe'' []])"
    by (simp add: form_run_def group_labels_eval toggleGroup_def)
  ultimately show ?thesis by simp
qed

text \<open>
  The claim as stated fails on the form. The user opens the group Nonlinear Dynamics,
  clears the field PPE, whose text is then empty and not a number, closes the groups
  and submits. No input is rendered, so the browser has nothing to refuse (and 0 lies
  within the bounds of PPE in any case), and the body posted has all 22 members and
  carries 0 for PPE.
\<close>

theorem form_cleared_field_posted_as_zero:
  "parseFloat [] = NaN
   \<and> can_submit (form_run [ToggleGroup ''Nonlinear Dynamics'', Change ''ppe'' [],
        ToggleGroup ''Nonlinear Dynamics'', ToggleGroup ''Fundamental Frequency''])
   \<and> map_of (body (fst (snd (handleSubmit (RespondsNotOk (BodyWith Falsy))
        (form_run [ToggleGroup ''Nonlinear Dynamics'', Change ''ppe'' [],
           ToggleGroup ''Nonlinear Dynamics'', ToggleGroup ''Fundamental Frequency'']))))) ''ppe''
       = Some (JNumber 0)
   \<and> map fst (body (fst (snd (handleSubmit (RespondsNotOk (BodyWith Falsy))
        (form_run [ToggleGroup ''Nonlinear Dynamics'', Change ''ppe'' [],
           ToggleGroup ''Nonlinear Dynamics'', ToggleGroup ''Fundamental Frequency'']))))) = field_keys"
proof -
  have a: "can_submit (form_run [ToggleGroup ''Nonlinear Dynamics'', Change ''ppe'' [],
        ToggleGroup ''Nonlinear Dynamics'', ToggleGroup ''Fundamental Frequency''])"
    by (rule collapsed_cannot_refuse) (simp add: cleared_ppe_expanded group_labels_eval)
  have b: "body (fst (snd (handleSubmit (RespondsNotOk (BodyWith Falsy))
        (form_run [ToggleGroup ''Nonlinear Dynamics'', Change ''ppe'' [],
           ToggleGroup ''Nonlinear Dynamics'', ToggleGroup ''Fundamental Frequency'']))))
      = JSON_stringify (AList.update ''ppe'' (Num 0) buildDefaults)"
    by (simp add: handleSubmit_def Let_def cleared_ppe_values)
  have c: "map_of (JSON_stringify (AList.update ''ppe'' (Num 0) buildDefaults)) ''ppe''
      = Some (JNumber 0)"
    by (simp add: JSON_stringify_map_of update_map_of_same JSON_number_def)
  have "map fst (AList.update ''ppe'' (Num 0) buildDefaults) = field_keys"
    by (simp add: update_keys buildDefaults_keys field_keys_eval)
  then have d: "map fst (JSON_stringify (AList.update ''ppe'' (Num 0) buildDefaults)) = field_keys"
    by (simp add: JSON_stringify_keys)
  from a b c d show ?thesis by (simp add: parseFloat_empty)
qed

subsection \<open>The risk level\<close>

text \<open>
  C2. The risk level is a function of \<open>probability_parkinson\<close> alone; it never decreases
  when the probability grows; below 0.25 it is VeryLow, below 0.5 Low, below 0.75
  Moderate and High otherwise; and the four levels are exactly the values it takes.
\<close>

theorem risk_level_of_monotone:
  "(p \<le> q \<longrightarrow> severity (risk_level_of p) \<le> severity (risk_level_of q))
   \<and> (p < 0.25 \<longrightarrow> risk_level_of p = VeryLow)
   \<and> (0.25 \<le> p \<and> p < 0.5 \<longrightarrow> risk_level_of p = Low)
   \<and> (0.5 \<le> p \<and> p < 0.75 \<longrightarrow> risk_level_of p = Moderate)
   \<and> (0.75 \<le> p \<longrightarrow> risk_level_of p = High)
   \<and> range risk_level_of = {VeryLow, Low, Moderate, High}
   \<and> (UNIV :: RiskLevel set) = {VeryLow, Low, Moderate, High}"
proof -
  have mono: "p \<le> q \<longrightarrow> severity (risk_level_of p) \<le> severity (risk_level_of q)"
    by (simp add: risk_level_of_def)
  have th: "(p < 0.25 \<longrightarrow> risk_level_of p = VeryLow)
   \<and> (0.25 \<le> p \<and> p < 0.5 \<longrightarrow> risk_level_of p = Low)
   \<and> (0.5 \<le> p \<and> p < 0.75 \<longrightarrow> risk_level_of p = Moderate)
   \<and> (0.75 \<le> p \<longrightarrow> risk_level_of p = High)"
    by (simp add: risk_level_of_def)
  have univ: "(UNIV :: RiskLevel set) = {VeryLow, Low, Moderate, High}"
  proof -
    have "x \<in> {VeryLow, Low, Moderate, High}" for x :: RiskLevel by (cases x) simp_all
    then show ?thesis by blast
  qed
  have "VeryLow = risk_level_of 0" "Low = risk_level_of 0.3" "Moderate = risk_level_of 0.6"
    "High = risk_level_of 1"
    by (simp_all add: risk_level_of_def)
  then have "{VeryLow, Low, Moderate, High} \<subseteq> range risk_level_of"
    by (metis empty_subsetI insert_subset rangeI)
  then have rng: "range risk_level_of = {VeryLow, Low, Moderate, High}"
    using univ by blast
  from mono th univ rng show ?thesis by blast
qed

theorem risk_level_of_monotone_witness:
  "(0.3::rat) \<le> 0.6 \<and> severity (risk_level_of 0.3) \<le> severity (risk_level_of 0.6)
   \<and> (0.25::rat) \<le> 0.3 \<and> (0.3::rat) < 0.5 \<and> risk_level_of 0.3 = Low"
proof -
  have h1: "(0.3::rat) \<le> 0.6" by simp
  have h2: "(0.25::rat) \<le> 0.3 \<and> (0.3::rat) < 0.5" by simp
  have "severity (risk_level_of 0.3) \<le> severity (risk_level_of 0.6) \<and> risk_level_of 0.3 = Low"
    using risk_level_of_monotone [of "0.3" "0.6"] h1 h2 by blast
  with h1 h2 show ?thesis by blast
qed


subsection \<open>Rejected uploads\<close>

lemma canonicalize_dot: "canonicalize c = CHR ''.'' \<Longrightarrow> c = CHR ''.''"
  by (auto simp: canonicalize_def split: option.splits if_splits)

lemma canonicalize_dot_self: "canonicalize (CHR ''.'') = CHR ''.''"
  by (simp add: canonicalize_def)

lemma regex_match_split:
  "regex_match alts nm \<Longrightarrow> \<exists>pre rest. nm = pre @ rest \<and> match_here alts rest"
proof (induction nm)
  case Nil
  then show ?case by simp
next
  case (Cons c cs)
  show ?case
  proof (cases "match_here alts (c # cs)")
    case True
    then have "c # cs = [] @ (c # cs) \<and> match_here alts (c # cs)" by simp
    then show ?thesis by blast
  next
    case False
    with Cons.prems have "regex_match alts cs" by simp
    then obtain pre rest where "cs = pre @ rest" "match_here alts rest"
      using Cons.IH by blast
    then have "c # cs = (c # pre) @ rest \<and> match_here alts rest" by simp
    then show ?thesis by blast
  qed
qed

lemma extension_append_dot:
  assumes "CHR ''.'' \<notin> set e"
  shows "extension (pre @ CHR ''.'' # e) = Some e"
proof -
  have "rev (pre @ CHR ''.'' # e) = rev e @ CHR ''.'' # rev pre" by simp
  moreover have "takeWhile (\<lambda>c. c \<noteq> CHR ''.'') (rev e @ CHR ''.'' # rev pre) = rev e"
    using assms by (auto simp: takeWhile_tail)
  ultimately show ?thesis by (simp add: extension_def)
qed

text \<open>A name the pattern matches has one of the listed extensions.\<close>

lemma regex_match_has_extension:
  assumes m: "regex_match alts nm"
    and nodot: "\<forall>alt\<in>set alts. CHR ''.'' \<notin> set (map canonicalize alt)"
  shows "has_extension alts nm"
proof -
  obtain pre rest where nm: "nm = pre @ rest" and mh: "match_here alts rest"
    using regex_match_split [OF m] by blast
  from mh obtain alt where alt: "alt \<in> set alts"
    and eq: "map canonicalize rest = map canonicalize (CHR ''.'' # alt)"
    by (auto simp: match_here_def list_ex_iff)
  from eq obtain d e where rest: "rest = d # e" by (cases rest) auto
  with eq have d: "canonicalize d = CHR ''.''" and e: "map canonicalize e = map canonicalize alt"
    by (simp_all add: canonicalize_dot_self)
  have d': "d = CHR ''.''" using d by (rule canonicalize_dot)
  have "CHR ''.'' \<notin> set (map canonicalize e)" using nodot alt e by simp
  then have "CHR ''.'' \<notin> set e"
    using canonicalize_dot_self by (metis image_eqI set_map)
  then have "extension nm = Some e" unfolding nm rest d' by (rule extension_append_dot)
  then show ?thesis using alt e by (simp add: has_extension_def)
qed

lemma audio_alts_nodot: "\<forall>alt\<in>set audio_alts. CHR ''.'' \<notin> set (map canonicalize alt)"
  by (simp add: audio_alts_def canonicalize_def)

lemma image_alts_nodot: "\<forall>alt\<in>set image_alts. CHR ''.'' \<notin> set (map canonicalize alt)"
  by (simp add: image_alts_def canonicalize_def)

text \<open>The stored file of either widget always has a name that its pattern matches.\<close>

lemma AudioUpload_handleFile_ok:
  "stored_ok audio_alts s \<Longrightarrow> stored_ok audio_alts (AudioUpload_handleFile f s)"
  by (simp add: stored_ok_def AudioUpload_handleFile_def Let_def)

lemma HandwritingUpload_handleFile_ok:
  "stored_ok image_alts s \<Longrightarrow> stored_ok image_alts (HandwritingUpload_handleFile f s)"
  by (simp add: stored_ok_def HandwritingUpload_handleFile_def Let_def)

lemma AudioUpload_step_ok:
  assumes "stored_ok audio_alts s"
  shows "stored_ok audio_alts (fst (AudioUpload_step s e))
     \<and> (\<forall>req. snd (AudioUpload_step s e) = Some req \<longrightarrow> regex_match audio_alts (name (body req)))"
proof (cases e)
  case (Drop fs)
  from assms have "stored_ok audio_alts (s\<lparr>dragging := False\<rparr>)" by (simp add: stored_ok_def)
  then show ?thesis using Drop AudioUpload_handleFile_ok by (cases fs) simp_all
next
  case (InputChange fs)
  then show ?thesis using assms AudioUpload_handleFile_ok by (cases fs) simp_all
next
  case (SubmitClick out)
  then show ?thesis using assms
    by (auto simp: stored_ok_def AudioUpload_handleSubmit_def Let_def split: option.splits)
qed (use assms in \<open>simp_all add: stored_ok_def\<close>)

lemma HandwritingUpload_step_ok:
  assumes "stored_ok image_alts s"
  shows "stored_ok image_alts (fst (HandwritingUpload_step s e))
     \<and> (\<forall>req. snd (HandwritingUpload_step s e) = Some req
           \<longrightarrow> regex_match image_alts (name (body req)))"
proof (cases e)
  case (Drop fs)
  from assms have "stored_ok image_alts (s\<lparr>dragging := False\<rparr>)" by (simp add: stored_ok_def)
  then show ?thesis using Drop HandwritingUpload_handleFile_ok by (cases fs) simp_all
next
  case (InputChange fs)
  then show ?thesis using assms HandwritingUpload_handleFile_ok by (cases fs) simp_all
next
  case (SubmitClick out)
  then show ?thesis using assms
    by (auto simp: stored_ok_def HandwritingUpload_handleSubmit_def Let_def split: option.splits)
qed (use assms in \<open>simp_all add: stored_ok_def\<close>)

lemma run_widget_ok:
  assumes stp: "\<And>s e. sound s \<Longrightarrow> sound (fst (stp s e)) \<and> (\<forall>req. snd (stp s e) = Some req \<longrightarrow> good req)"
  shows "sound s \<Longrightarrow> req \<in> set (snd (run_widget stp s evs)) \<Longrightarrow> good req"
proof (induction evs arbitrary: s)
  case Nil
  then show ?case by simp
next
  case (Cons e es)
  have ok': "sound (fst (stp s e))" using stp [OF Cons.prems(1)] by blast
  from Cons.prems(2) consider
      (now) "snd (stp s e) = Some req"
    | (later) "req \<in> set (snd (run_widget stp (fst (stp s e)) es))"
    by (auto simp: Let_def split: option.splits)
  then show ?case
  proof cases
    case now
    then show ?thesis using stp [OF Cons.prems(1)] by blast
  next
    case later
    then show ?thesis using Cons.IH [OF ok'] by blast
  qed
qed

lemma AudioUpload_posts_ok:
  "req \<in> set (snd (run_widget AudioUpload_step AudioUpload_init evs))
     \<Longrightarrow> regex_match audio_alts (name (body req))"
proof -
  have "stored_ok audio_alts AudioUpload_init" by (simp add: stored_ok_def AudioUpload_init_def)
  then show "req \<in> set (snd (run_widget AudioUpload_step AudioUpload_init evs))
     \<Longrightarrow> regex_match audio_alts (name (body req))"
    using run_widget_ok [of "stored_ok audio_alts" AudioUpload_step
        "\<lambda>req. regex_match audio_alts (name (body req))"] AudioUpload_step_ok
    by blast
qed

lemma HandwritingUpload_posts_ok:
  "req \<in> set (snd (run_widget HandwritingUpload_step HandwritingUpload_init evs))
     \<Longrightarrow> regex_match image_alts (name (body req))"
proof -
  have "stored_ok image_alts HandwritingUpload_init"
    by (simp add: stored_ok_def HandwritingUpload_init_def)
  then show "req \<in> set (snd (run_widget HandwritingUpload_step HandwritingUpload_init evs))
     \<Longrightarrow> regex_match image_alts (name (body req))"
    using run_widget_ok [of "stored_ok image_alts" HandwritingUpload_step
        "\<lambda>req. regex_match image_alts (name (body req))"] HandwritingUpload_step_ok
    by blast
qed

text \<open>
  C4. A file whose name has none of the extensions wav, mp3, ogg, flac (for the audio
  widget) or png, jpg, jpeg, bmp, tiff (for the handwriting widget), compared without
  regard to case, makes \<open>handleFile\<close> set the unsupported-format error and nothing else:
  the stored file stays what it was. From the initial state, whatever events follow,
  no request the widget makes carries that file.
\<close>

theorem unsupported_file_never_posted:
  "(\<not> has_extension audio_alts (name f) \<longrightarrow>
      AudioUpload_handleFile f s
        = s\<lparr> error := Some ''Unsupported format. Please upload a WAV, MP3, OGG, or FLAC file.'',
              uploaded := False \<rparr>
      \<and> file_u (AudioUpload_handleFile f s) = file_u s
      \<and> (\<forall>req\<in>set (snd (run_widget AudioUpload_step AudioUpload_init evs)). body req \<noteq> f))
   \<and> (\<not> has_extension image_alts (name f) \<longrightarrow>
      HandwritingUpload_handleFile f t
        = t\<lparr> error := Some ''Unsupported format. Please upload a PNG or JPG image.'',
              uploaded := False \<rparr>
      \<and> file_u (HandwritingUpload_handleFile f t) = file_u t
      \<and> (\<forall>req\<in>set (snd (run_widget HandwritingUpload_step HandwritingUpload_init evs)).
            body req \<noteq> f))"
proof (intro conjI impI)
  assume h: "\<not> has_extension audio_alts (name f)"
  then have nm: "\<not> regex_match audio_alts (name f)"
    using regex_match_has_extension audio_alts_nodot by blast
  then show "AudioUpload_handleFile f s
        = s\<lparr> error := Some ''Unsupported format. Please upload a WAV, MP3, OGG, or FLAC file.'',
              uploaded := False \<rparr>"
    by (simp add: AudioUpload_handleFile_def Let_def)
  from nm show "file_u (AudioUpload_handleFile f s) = file_u s"
    by (simp add: AudioUpload_handleFile_def Let_def)
  from nm show "\<forall>req\<in>set (snd (run_widget AudioUpload_step AudioUpload_init evs)). body req \<noteq> f"
    using AudioUpload_posts_ok by blast
next
  assume h: "\<not> has_extension image_alts (name f)"
  then have nm: "\<not> regex_match image_alts (name f)"
    using regex_match_has_extension image_alts_nodot by blast
  then show "HandwritingUpload_handleFile f t
        = t\<lparr> error := Some ''Unsupported format. Please upload a PNG or JPG image.'',
              uploaded := False \<rparr>"
    by (simp add: HandwritingUpload_handleFile_def Let_def)
  from nm show "file_u (HandwritingUpload_handleFile f t) = file_u t"
    by (simp add: HandwritingUpload_handleFile_def Let_def)
  from nm show "\<forall>req\<in>set (snd (run_widget HandwritingUpload_step HandwritingUpload_init evs)).
      body req \<noteq> f"
    using HandwritingUpload_posts_ok by blast
qed

lemma notes_txt_no_audio: "\<not> has_extension audio_alts ''notes.txt''"
  by code_simp

lemma notes_txt_no_image: "\<not> has_extension image_alts ''notes.txt''"
  by code_simp

lemma AudioUpload_example_run:
  "snd (run_widget AudioUpload_step AudioUpload_init
     [Drop [\<lparr> name = ''notes.txt'', contents = ''abc'' \<rparr>], SubmitClick (FetchRejects NonError),
      InputChange [\<lparr> name = ''voice.WAV'', contents = ''RIFF'' \<rparr>], SubmitClick (FetchRejects NonError),
      Drop [\<lparr> name = ''notes.txt'', contents = ''abc'' \<rparr>], SubmitClick (FetchRejects NonError)])
   = [\<lparr> url = ''/api/predict/audio'', http_method = ''POST'', headers = [],
        body = \<lparr> name = ''voice.WAV'', contents = ''RIFF'' \<rparr> \<rparr>,
      \<lparr> url = ''/api/predict/audio'', http_method = ''POST'', headers = [],
        body = \<lparr> name = ''voice.WAV'', contents = ''RIFF'' \<rparr> \<rparr>]"
  by code_simp

theorem unsupported_file_never_posted_witness:
  "\<not> has_extension audio_alts (name \<lparr> name = ''notes.txt'', contents = ''abc'' \<rparr>)
   \<and> \<not> has_extension image_alts (name \<lparr> name = ''notes.txt'', contents = ''abc'' \<rparr>)
   \<and> error (AudioUpload_handleFile \<lparr> name = ''notes.txt'', contents = ''abc'' \<rparr> AudioUpload_init)
       = Some ''Unsupported format. Please upload a WAV, MP3, OGG, or FLAC file.''
   \<and> file_u (HandwritingUpload_handleFile \<lparr> name = ''notes.txt'', contents = ''abc'' \<rparr>
         HandwritingUpload_init) = None
   \<and> \<lparr> url = ''/api/predict/audio'', http_method = ''POST'', headers = [],
        body = \<lparr> name = ''voice.WAV'', contents = ''RIFF'' \<rparr> \<rparr>
       \<in> set (snd (run_widget AudioUpload_step AudioUpload_init
     [Drop [\<lparr> name = ''notes.txt'', contents = ''abc'' \<rparr>], SubmitClick (FetchRejects NonError),
      InputChange [\<lparr> name = ''voice.WAV'', contents = ''RIFF'' \<rparr>], SubmitClick (FetchRejects NonError),
      Drop [\<lparr> name = ''notes.txt'', contents = ''abc'' \<rparr>], SubmitClick (FetchRejects NonError)]))
   \<and> body \<lparr> url = ''/api/predict/audio'', http_method = ''POST'', headers = [],
        body = \<lparr> name = ''voice.WAV'', contents = ''RIFF'' \<rparr> \<rparr>
       \<noteq> \<lparr> name = ''notes.txt'', contents = ''abc'' \<rparr>"
proof -
  have h1: "\<not> has_extension audio_alts (name \<lparr> name = ''notes.txt'', contents = ''abc'' \<rparr>)"
    by (simp add: notes_txt_no_audio)
  have h2: "\<not> has_extension image_alts (name \<lparr> name = ''notes.txt'', contents = ''abc'' \<rparr>)"
    by (simp add: notes_txt_no_image)
  note inst = unsupported_file_never_posted [of "\<lparr> name = ''notes.txt'', contents = ''abc'' \<rparr>"
      AudioUpload_init
      "[Drop [\<lparr> name = ''notes.txt'', contents = ''abc'' \<rparr>], SubmitClick (FetchRejects NonError),
      InputChange [\<lparr> name = ''voice.WAV'', contents = ''RIFF'' \<rparr>], SubmitClick (FetchRejects NonError),
      Drop [\<lparr> name = ''notes.txt'', contents = ''abc'' \<rparr>], SubmitClick (FetchRejects NonError)]"
      HandwritingUpload_init]
  have a: "AudioUpload_handleFile \<lparr> name = ''notes.txt'', contents = ''abc'' \<rparr> AudioUpload_init
      = AudioUpload_init\<lparr> error := Some ''Unsupported format. Please upload a WAV, MP3, OGG, or FLAC file.'',
              uploaded := False \<rparr>"
    using inst h1 by blast
  have b: "file_u (HandwritingUpload_handleFile \<lparr> name = ''notes.txt'', contents = ''abc'' \<rparr>
         HandwritingUpload_init) = file_u HandwritingUpload_init"
    using inst h2 by blast
  have c: "\<forall>req\<in>set (snd (run_widget AudioUpload_step AudioUpload_init
     [Drop [\<lparr> name = ''notes.txt'', contents = ''abc'' \<rparr>], SubmitClick (FetchRejects NonError),
      InputChange [\<lparr> name = ''voice.WAV'', contents = ''RIFF'' \<rparr>], SubmitClick (FetchRejects NonError),
      Drop [\<lparr> name = ''notes.txt'', contents = ''abc'' \<rparr>], SubmitClick (FetchRejects NonError)])).
        body req \<noteq> \<lparr> name = ''notes.txt'', contents = ''abc'' \<rparr>"
    using inst h1 by blast
  from a have a': "error (AudioUpload_handleFile \<lparr> name = ''notes.txt'', contents = ''abc'' \<rparr> AudioUpload_init)
       = Some ''Unsupported format. Please upload a WAV, MP3, OGG, or FLAC file.''"
    by simp
  from b have b': "file_u (HandwritingUpload_handleFile \<lparr> name = ''notes.txt'', contents = ''abc'' \<rparr>
         HandwritingUpload_init) = None"
    by (simp add: HandwritingUpload_init_def)
  have d: "\<lparr> url = ''/api/predict/audio'', http_method = ''POST'', headers = [],
        body = \<lparr> name = ''voice.WAV'', contents = ''RIFF'' \<rparr> \<rparr>
       \<in> set (snd (run_widget AudioUpload_step AudioUpload_init
     [Drop [\<lparr> name = ''notes.txt'', contents = ''abc'' \<rparr>], SubmitClick (FetchRejects NonError),
      InputChange [\<lparr> name = ''voice.WAV'', contents = ''RIFF'' \<rparr>], SubmitClick (FetchRejects NonError),
      Drop [\<lparr> name = ''notes.txt'', contents = ''abc'' \<rparr>], SubmitClick (FetchRejects NonError)]))"
    unfolding AudioUpload_example_run by simp
  from c d have e: "body \<lparr> url = ''/api/predict/audio'', http_method = ''POST'', headers = [],
        body = \<lparr> name = ''voice.WAV'', contents = ''RIFF'' \<rparr> \<rparr>
       \<noteq> \<lparr> name = ''notes.txt'', contents = ''abc'' \<rparr>"
    by blast
  from h1 h2 a' b' d e show ?thesis by blast
qed

subsection \<open>The ranked importances\<close>

lemma ranked_descending:
  assumes "a \<in> set (take n (ranked imps))" "b \<in> set (drop n (ranked imps))"
  shows "snd b \<le> snd a"
proof -
  have "sorted (map (\<lambda>e. - snd e) (ranked imps))"
    by (simp add: ranked_def)
  then have "sorted (map (\<lambda>e. - snd e) (take n (ranked imps))
               @ map (\<lambda>e. - snd e) (drop n (ranked imps)))"
    by (metis append_take_drop_id map_append)
  then have "\<forall>x\<in>set (map (\<lambda>e. - snd e) (take n (ranked imps))).
             \<forall>y\<in>set (map (\<lambda>e. - snd e) (drop n (ranked imps))). x \<le> y"
    by (simp add: sorted_append)
  then have "- snd a \<le> - snd b" using assms by simp
  then show ?thesis by simp
qed

lemma ranked_sorted: "sorted (rev (map snd (ranked imps)))"
proof -
  have "sorted (map (\<lambda>e. - snd e) (ranked imps))"
    by (simp add: ranked_def)
  then have "sorted (map uminus (map snd (ranked imps)))"
    by (simp add: comp_def)
  moreover have "sorted (map uminus xs) \<Longrightarrow> sorted (rev xs)" for xs :: "rat list"
    by (induction xs) (auto simp: sorted_append)
  ultimately show ?thesis by blast
qed

lemma shapData_names: "map fst (shapData md) = take 10 (map fst (shap_importance md))"
  by (simp add: shapData_def take_map case_prod_unfold comp_def)

lemma ranked_example:
  "ranked [(''f1'', 1), (''f2'', 12), (''f3'', 3), (''f4'', 4), (''f5'', 5), (''f6'', 6),
           (''f7'', 7), (''f8'', 8), (''f9'', 9), (''f10'', 10), (''f11'', 11), (''f12'', 2)]
   = [(''f2'', 12), (''f11'', 11), (''f10'', 10), (''f9'', 9), (''f8'', 8), (''f7'', 7),
      (''f6'', 6), (''f5'', 5), (''f4'', 4), (''f3'', 3), (''f12'', 2), (''f1'', 1)]"
  by code_simp

text \<open>
  C8. Two calls of \<open>get_metadata\<close>, one after the other, return the same metadata, and
  so the same \<open>shap_importance\<close> with the same keys, order and values. Its order is the
  descending ranking of the global importances (the same entries, greatest first), so
  that the dashboard's \<open>shapData\<close>, which takes the first ten entries in order, shows
  the ten features of greatest importance: no entry left out exceeds an entry shown.
\<close>

theorem shap_importance_stable_ranked:
  "get_metadata (snd (get_metadata (startup report))) = get_metadata (startup report)
   \<and> shap_importance (fst (get_metadata (startup report))) = ranked (shap_importance report)
   \<and> set (ranked imps) = set imps \<and> length (ranked imps) = length imps
   \<and> sorted (rev (map snd (ranked imps)))
   \<and> map fst (shapData md) = take 10 (map fst (shap_importance md))
   \<and> (\<forall>a\<in>set (take 10 (ranked imps)). \<forall>b\<in>set (drop 10 (ranked imps)). snd b \<le> snd a)"
proof -
  have a: "get_metadata (snd (get_metadata (startup report))) = get_metadata (startup report)"
    by (simp add: get_metadata_def)
  have b: "shap_importance (fst (get_metadata (startup report))) = ranked (shap_importance report)"
    by (simp add: get_metadata_def startup_def)
  have c: "set (ranked imps) = set imps \<and> length (ranked imps) = length imps"
    by (simp add: ranked_def)
  have d: "\<forall>a\<in>set (take 10 (ranked imps)). \<forall>b\<in>set (drop 10 (ranked imps)). snd b \<le> snd a"
    using ranked_descending by blast
  from a b c d ranked_sorted shapData_names show ?thesis by blast
qed

theorem shap_importance_stable_ranked_witness:
  "(''f3'', 3) \<in> set (take 10 (ranked
       [(''f1'', 1), (''f2'', 12), (''f3'', 3), (''f4'', 4), (''f5'', 5), (''f6'', 6),
        (''f7'', 7), (''f8'', 8), (''f9'', 9), (''f10'', 10), (''f11'', 11), (''f12'', 2)]))
   \<and> (''f12'', 2) \<in> set (drop 10 (ranked
       [(''f1'', 1), (''f2'', 12), (''f3'', 3), (''f4'', 4), (''f5'', 5), (''f6'', 6),
        (''f7'', 7), (''f8'', 8), (''f9'', 9), (''f10'', 10), (''f11'', 11), (''f12'', 2)]))
   \<and> snd (''f12'', 2 :: rat) \<le> snd (''f3'', 3 :: rat)"
proof -
  have h1: "(''f3'', 3) \<in> set (take 10 (ranked
       [(''f1'', 1), (''f2'', 12), (''f3'', 3), (''f4'', 4), (''f5'', 5), (''f6'', 6),
        (''f7'', 7), (''f8'', 8), (''f9'', 9), (''f10'', 10), (''f11'', 11), (''f12'', 2)]))"
    unfolding ranked_example by simp
  have h2: "(''f12'', 2) \<in> set (drop 10 (ranked
       [(''f1'', 1), (''f2'', 12), (''f3'', 3), (''f4'', 4), (''f5'', 5), (''f6'', 6),
        (''f7'', 7), (''f8'', 8), (''f9'', 9), (''f10'', 10), (''f11'', 11), (''f12'', 2)]))"
    unfolding ranked_example by simp
  have "snd (''f12'', 2 :: rat) \<le> snd (''f3'', 3 :: rat)"
    using shap_importance_stable_ranked [of _ "[(''f1'', 1), (''f2'', 12), (''f3'', 3), (''f4'', 4),
        (''f5'', 5), (''f6'', 6), (''f7'', 7), (''f8'', 8), (''f9'', 9), (''f10'', 10),
        (''f11'', 11), (''f12'', 2)]"] h1 h2
    by blast
  with h1 h2 show ?thesis by blast
qed

subsection \<open>The importance badge for a field without a key\<close>

lemma indexOf_neg: "(indexOf ys x < 0) = (x \<notin> set ys)"
proof (induction ys)
  case Nil
  show ?case by simp
next
  case (Cons y ys)
  then show ?case by (cases "y = x") (auto simp: Let_def)
qed

lemma indexOf_less_take:
  "(indexOf ys x < int (Suc m)) = (x \<notin> set ys \<or> x \<in> set (take (Suc m) ys))"
proof (induction ys arbitrary: m)
  case Nil
  show ?case by simp
next
  case (Cons y ys)
  show ?case
  proof (cases "y = x")
    case True
    then show ?thesis by simp
  next
    case False
    show ?thesis
    proof (cases m)
      case 0
      have "(indexOf (y # ys) x < 1) = (indexOf ys x < 0)"
        using False by (simp add: Let_def)
      then show ?thesis using False 0 by (simp add: indexOf_neg)
    next
      case (Suc k)
      have ih: "(indexOf ys x < int (Suc k)) = (x \<notin> set ys \<or> x \<in> set (take (Suc k) ys))"
        by (rule Cons.IH)
      have "(indexOf (y # ys) x < int (Suc (Suc k))) = (indexOf ys x < int (Suc k))"
      proof (cases "indexOf ys x < 0")
        case True
        then show ?thesis using False by (simp add: Let_def)
      next
        case neg: False
        then show ?thesis using False by (simp add: Let_def)
      qed
      then show ?thesis using ih False Suc by simp
    qed
  qed
qed

lemma find_none: "x \<notin> set (map g xs) \<Longrightarrow> find (\<lambda>k. g k = x) xs = None"
  by (induction xs) auto

text \<open>
  C9, with the one case it leaves out. For a field whose normalized label is the normal
  form of no key of \<open>shap_importance\<close>, \<open>find\<close> yields nothing, the empty string is
  looked up instead, and \<open>isImportant\<close> is the truth value of \<open>indexOf(...) < 5\<close>: it is
  true when the empty string is not a key (then the index is -1) or is one of the first
  five keys, and false when the empty string is a key at a later position.
\<close>

theorem isImportant_unmatched:
  assumes "normalize (label f) \<notin> set (map normalize (map fst (shap_importance md)))"
  shows "isImportant (Some md) f
           = Some ([] \<notin> set (map fst (shap_importance md))
                   \<or> [] \<in> set (take 5 (map fst (shap_importance md))))"
proof -
  have "find (\<lambda>k. normalize k = normalize (label f)) (map fst (shap_importance md)) = None"
    using assms by (rule find_none)
  moreover have "(indexOf (map fst (shap_importance md)) [] < int (Suc 4))
      = ([] \<notin> set (map fst (shap_importance md))
         \<or> [] \<in> set (take (Suc 4) (map fst (shap_importance md))))"
    by (rule indexOf_less_take)
  moreover have "int (Suc 4) = 5" "Suc 4 = 5" by simp_all
  ultimately show ?thesis by (simp add: isImportant_def Let_def)
qed

theorem isImportant_unmatched_witness:
  "normalize (label 
      \<lparr> key = ''mdvp_fo'', label = ''MDVP:Fo (Hz)'', desc = ''Average vocal fundamental frequency'', min_f = 80, max_f = 270, step = 0.001, default_f = 154.229 \<rparr>) \<notin> set (map normalize (map fst (shap_importance 
      \<lparr> feature_names = [], feature_descriptions = [], shap_importance = [(''PPE'', 0.3), (''spread1'', 0.2)], model_comparison = [], best_model_by_recall = [] \<rparr>)))
   \<and> isImportant (Some 
      \<lparr> feature_names = [], feature_descriptions = [], shap_importance = [(''PPE'', 0.3), (''spread1'', 0.2)], model_comparison = [], best_model_by_recall = [] \<rparr>) 
      \<lparr> key = ''mdvp_fo'', label = ''MDVP:Fo (Hz)'', desc = ''Average vocal fundamental frequency'', min_f = 80, max_f = 270, step = 0.001, default_f = 154.229 \<rparr> = Some True"
proof -
  have h: "normalize (label 
      \<lparr> key = ''mdvp_fo'', label = ''MDVP:Fo (Hz)'', desc = ''Average vocal fundamental frequency'', min_f = 80, max_f = 270, step = 0.001, default_f = 154.229 \<rparr>) \<notin> set (map normalize (map fst (shap_importance 
      \<lparr> feature_names = [], feature_descriptions = [], shap_importance = [(''PPE'', 0.3), (''spread1'', 0.2)], model_comparison = [], best_model_by_recall = [] \<rparr>)))"
    by code_simp
  have "isImportant (Some 
      \<lparr> feature_names = [], feature_descriptions = [], shap_importance = [(''PPE'', 0.3), (''spread1'', 0.2)], model_comparison = [], best_model_by_recall = [] \<rparr>) 
      \<lparr> key = ''mdvp_fo'', label = ''MDVP:Fo (Hz)'', desc = ''Average vocal fundamental frequency'', min_f = 80, max_f = 270, step = 0.001, default_f = 154.229 \<rparr>
          = Some ([] \<notin> set (map fst (shap_importance 
      \<lparr> feature_names = [], feature_descriptions = [], shap_importance = [(''PPE'', 0.3), (''spread1'', 0.2)], model_comparison = [], best_model_by_recall = [] \<rparr>))
                   \<or> [] \<in> set (take 5 (map fst (shap_importance 
      \<lparr> feature_names = [], feature_descriptions = [], shap_importance = [(''PPE'', 0.3), (''spread1'', 0.2)], model_comparison = [], best_model_by_recall = [] \<rparr>))))"
    using h by (rule isImportant_unmatched)
  then have "isImportant (Some 
      \<lparr> feature_names = [], feature_descriptions = [], shap_importance = [(''PPE'', 0.3), (''spread1'', 0.2)], model_comparison = [], best_model_by_recall = [] \<rparr>) 
      \<lparr> key = ''mdvp_fo'', label = ''MDVP:Fo (Hz)'', desc = ''Average vocal fundamental frequency'', min_f = 80, max_f = 270, step = 0.001, default_f = 154.229 \<rparr> = Some True" by simp
  with h show ?thesis by blast
qed

text \<open>
  The claim as stated fails when the empty string is itself a key beyond the first
  five: the label of MDVP:Fo matches no key, and the badge is not shown.
\<close>

theorem isImportant_unmatched_counterexample:
  "normalize (label 
      \<lparr> key = ''mdvp_fo'', label = ''MDVP:Fo (Hz)'', desc = ''Average vocal fundamental frequency'', min_f = 80, max_f = 270, step = 0.001, default_f = 154.229 \<rparr>) \<notin> set (map normalize (map fst (shap_importance 
      \<lparr> feature_names = [], feature_descriptions = [], shap_importance = [(''PPE'', 0.3), (''spread1'', 0.2), (''spread2'', 0.1), (''HNR'', 0.05), (''NHR'', 0.04), ([], 0.01)], model_comparison = [], best_model_by_recall = [] \<rparr>)))
   \<and> isImportant (Some 
      \<lparr> feature_names = [], feature_descriptions = [], shap_importance = [(''PPE'', 0.3), (''spread1'', 0.2), (''spread2'', 0.1), (''HNR'', 0.05), (''NHR'', 0.04), ([], 0.01)], model_comparison = [], best_model_by_recall = [] \<rparr>) 
      \<lparr> key = ''mdvp_fo'', label = ''MDVP:Fo (Hz)'', desc = ''Average vocal fundamental frequency'', min_f = 80, max_f = 270, step = 0.001, default_f = 154.229 \<rparr> = Some False"
  by code_simp

subsection \<open>The styling of an unknown risk level\<close>

text \<open>
  A risk level that names neither an own property of \<open>RISK_CONFIG\<close> nor a property of
  \<open>Object.prototype\<close> gets the High configuration; an own property gets its own.
\<close>

lemma ResultPanel_cfg_unknown:
  assumes "map_of RISK_CONFIG lvl = None" "lvl \<notin> set Object_prototype"
  shows "ResultPanel_cfg (Some (r\<lparr> risk_level := lvl \<rparr>)) = Some (get_prop RISK_CONFIG ''High'')"
  using assms by (simp add: ResultPanel_cfg_def get_prop_def nullish_or_def)

lemma ResultPanel_cfg_own:
  assumes "map_of RISK_CONFIG lvl = Some c"
  shows "ResultPanel_cfg (Some (r\<lparr> risk_level := lvl \<rparr>)) = Some (Own c)"
  using assms by (simp add: ResultPanel_cfg_def get_prop_def nullish_or_def)

text \<open>
  C10 at a risk level that is the name of an inherited property. The lookup
  \<open>RISK_CONFIG["constructor"]\<close> finds the inherited function, which is not nullish, so
  the fallback is not taken and \<open>cfg\<close> is not the High configuration. A string such as
  "VeryLow", which names no property at all, does get the High configuration, and
  "Very Low" gets its own.
\<close>

theorem ResultPanel_cfg_inherited_name:
  "ResultPanel_cfg (Some (r\<lparr> risk_level := ''constructor'' \<rparr>)) = Some (Inherited ''constructor'')
   \<and> ResultPanel_cfg (Some (r\<lparr> risk_level := ''constructor'' \<rparr>))
       \<noteq> Some (get_prop RISK_CONFIG ''High'')
   \<and> ResultPanel_cfg (Some (r\<lparr> risk_level := ''VeryLow'' \<rparr>)) = Some (get_prop RISK_CONFIG ''High'')
   \<and> ResultPanel_cfg (Some (r\<lparr> risk_level := ''Very Low'' \<rparr>))
       = Some (get_prop RISK_CONFIG ''Very Low'')"
  by (simp add: ResultPanel_cfg_def get_prop_def RISK_CONFIG_def Object_prototype_def nullish_or_def)

end
